theory Spec2Isabelle
  imports Main "HOL-Library.AList"
begin

section \<open>Characters and strings\<close>

text \<open>
  JavaScript strings are modelled as \<^typ>\<open>string\<close>, so a character is one of the 256
  values of \<^typ>\<open>char\<close>. The class \<open>\s\<close> of a JavaScript regular expression, which is
  also what \<open>String.prototype.trim\<close> strips, has seven members below 256: tab, line
  feed, vertical tab, form feed, carriage return, space and the no-break space.
\<close>

definition is_space :: "char \<Rightarrow> bool" where
  "is_space c \<longleftrightarrow>
     (let n = (of_char c :: nat) in (9 \<le> n \<and> n \<le> 13) \<or> n = 32 \<or> n = 160)"

text \<open>The character class \<open>[a-zA-Z0-9_-]\<close> of the selector grammar.\<close>

definition is_seg_char :: "char \<Rightarrow> bool" where
  "is_seg_char c \<longleftrightarrow>
     (let n = (of_char c :: nat) in
        (97 \<le> n \<and> n \<le> 122) \<or> (65 \<le> n \<and> n \<le> 90) \<or> (48 \<le> n \<and> n \<le> 57)
        \<or> n = 95 \<or> n = 45)"

definition trim :: "string \<Rightarrow> string" where
  "trim s = rev (dropWhile is_space (rev (dropWhile is_space s)))"

definition starts_with :: "string \<Rightarrow> string \<Rightarrow> bool" where
  "starts_with p s \<longleftrightarrow> take (length p) s = p"

section \<open>Selectors (isValidTemplateSelector)\<close>

datatype TemplateSelectorType = Relative | Root | Id

text \<open>
  \<open>relativePath\<close> is the regular expression
  \<open>^[a-zA-Z0-9_-]+(\/[a-zA-Z0-9_-]+)*$\<close>: the flag records whether the segment being
  read already has a character.
\<close>

fun relativePath_from :: "bool \<Rightarrow> string \<Rightarrow> bool" where
  "relativePath_from seen [] = seen"
| "relativePath_from seen (c # cs) =
     (if is_seg_char c then relativePath_from True cs
      else if c = CHR ''/'' \<and> seen then relativePath_from False cs
      else False)"

definition relativePath :: "string \<Rightarrow> bool" where
  "relativePath s = relativePath_from False s"

text \<open>\<open>rootPath\<close> is \<open>^@[a-zA-Z0-9_-]+(\/[a-zA-Z0-9_-]+)*$\<close>.\<close>

definition rootPath :: "string \<Rightarrow> bool" where
  "rootPath s = (case s of [] \<Rightarrow> False | c # cs \<Rightarrow> c = CHR ''@'' \<and> relativePath cs)"

text \<open>\<open>idSelector\<close> is \<open>^#[a-zA-Z0-9_-]+$\<close>.\<close>

definition idSelector :: "string \<Rightarrow> bool" where
  "idSelector s =
     (case s of [] \<Rightarrow> False | c # cs \<Rightarrow> c = CHR ''#'' \<and> cs \<noteq> [] \<and> list_all is_seg_char cs)"

text \<open>
  The result \<open>{ valid: false }\<close> is \<^const>\<open>None\<close>; \<open>{ valid: true, type }\<close> is
  \<open>Some type\<close>. The three tests are tried in the order of the source.
\<close>

definition isValidTemplateSelector :: "string \<Rightarrow> TemplateSelectorType option" where
  "isValidTemplateSelector selector =
     (if relativePath selector then Some Relative
      else if rootPath selector then Some Root
      else if idSelector selector then Some Id
      else None)"

section \<open>The template directory and the diagnostics\<close>

text \<open>
  A markdown file is modelled as gray-matter reads it: the key/value pairs of its
  frontmatter (\<open>data\<close>, empty when the file has no header block) and the text after the
  header (\<open>content\<close>). The frontmatter format itself is outside this development, and
  frontmatter values are strings. The search by id reads the raw text as well: ripgrep
  looks for a line that matches \<open>^id: ?<id>$\<close>. What the model keeps of the raw text is
  \<open>id_lines\<close>: for every line of the file that starts with \<open>id:\<close>, the rest of the line
  after one optional space. An id is made of the characters of a selector, so the
  pattern matches exactly when the id is one of these texts.

  The template directory is an association list from the path of a file, relative to
  the directory and without the \<open>.md\<close> extension, to the file. The order of the list is
  the order in which the search by id enumerates the files. A file is looked up under
  the selector text as it is given, which is the file that
  \<open>path.join(instructionsDir, selector + ".md")\<close> names when the text is a valid
  selector. For the text of an invalid selector that is kept as a reference key,
  \<open>path.join\<close> would first resolve dots and doubled or leading slashes; the model does
  not.
\<close>

record md_file =
  id_lines :: "string list"
  data :: "(string \<times> string) list"
  body :: string

type_synonym directory = "(string \<times> md_file) list"

text \<open>What the code writes to the console as a warning or an error.\<close>

datatype diagnostic =
    DoesNotExist string
  | MultipleFilesWithId string
  | SelfReference string
  | LoopDetected string "string list"
  | NotAValidSelector string

text \<open>
  \<open>findMarkdownFileById\<close>: of the files that ripgrep lists, those whose frontmatter
  \<open>id\<close> equals the given id, in enumeration order; the first one is returned, with a
  warning when there are several.
\<close>

definition findMarkdownFileById :: "directory \<Rightarrow> string \<Rightarrow> string option \<times> diagnostic list" where
  "findMarkdownFileById rootDir i =
     (let files = filter (\<lambda>(p, f). i \<in> set (id_lines f)) rootDir;
          matches = map fst (filter (\<lambda>(p, f). map_of (data f) ''id'' = Some i) files) in
      (case matches of [] \<Rightarrow> None | p # _ \<Rightarrow> Some p,
       if length matches > 1 then [MultipleFilesWithId i] else []))"

section \<open>Normalizing a selector (normalizeSelector, normalizeToRelativeSelector)\<close>

text \<open>\<open>selector.slice(1)\<close> is \<open>drop 1\<close>. The result \<open>null\<close> is \<^const>\<open>None\<close>.\<close>

definition normalizeSelector ::
  "directory \<Rightarrow> string \<Rightarrow> TemplateSelectorType \<Rightarrow> string option \<times> diagnostic list" where
  "normalizeSelector templateDir selector type =
     (case type of
        Id \<Rightarrow> findMarkdownFileById templateDir (drop 1 selector)
      | Root \<Rightarrow> (Some (drop 1 selector), [])
      | Relative \<Rightarrow> (Some selector, []))"

definition normalizeToRelativeSelector ::
  "directory \<Rightarrow> string \<Rightarrow> string option \<times> diagnostic list" where
  "normalizeToRelativeSelector templateDir selector =
     (case isValidTemplateSelector selector of
        None \<Rightarrow> (None, [])
      | Some type \<Rightarrow> normalizeSelector templateDir selector type)"

section \<open>Fetching a file (getTemplateContent)\<close>

definition getTemplateContent ::
  "directory \<Rightarrow> string \<Rightarrow> TemplateSelectorType \<Rightarrow> md_file option \<times> diagnostic list" where
  "getTemplateContent instructionsDir templateSelector type =
     (if type = Id then
        (case findMarkdownFileById instructionsDir (drop 1 templateSelector) of
           (None, w) \<Rightarrow> (None, w @ [DoesNotExist templateSelector])
         | (Some foundPath, w) \<Rightarrow> (map_of instructionsDir foundPath, w))
      else
        (let selectorPath = (if type = Root then drop 1 templateSelector else templateSelector) in
         case map_of instructionsDir selectorPath of
           None \<Rightarrow> (None, [DoesNotExist templateSelector])
         | Some f \<Rightarrow> (Some f, [])))"

section \<open>Regular expressions of the parser\<close>

text \<open>
  A regular expression used with \<open>exec\<close> in a loop or with a global \<open>replace\<close> is
  modelled by a function that tells whether a match starts at the head of a string and,
  if so, what it captures and how many characters it spans. \<open>regex_exec\<close> is the loop
  \<open>while ((match = re.exec(content)) !== null)\<close>: it returns \<open>match.index\<close>,
  \<open>re.lastIndex\<close> and the capture of every match, left to right, resuming after each
  match. The argument \<open>k\<close> counts the characters of the current match still to skip.
\<close>

fun regex_exec ::
  "(string \<Rightarrow> ('a \<times> nat) option) \<Rightarrow> nat \<Rightarrow> nat \<Rightarrow> string \<Rightarrow> (nat \<times> nat \<times> 'a) list" where
  "regex_exec re k pos [] = []"
| "regex_exec re k pos (c # cs) =
     (if 0 < k then regex_exec re (k - 1) (pos + 1) cs
      else
        (case re (c # cs) of
           Some (g, len) \<Rightarrow> (pos, pos + len, g) # regex_exec re (len - 1) (pos + 1) cs
         | None \<Rightarrow> regex_exec re 0 (pos + 1) cs))"

text \<open>\<open>content.replace(regex, '')\<close> with a global regular expression.\<close>

fun regex_remove :: "(string \<Rightarrow> nat option) \<Rightarrow> nat \<Rightarrow> string \<Rightarrow> string" where
  "regex_remove re k [] = []"
| "regex_remove re k (c # cs) =
     (if 0 < k then regex_remove re (k - 1) cs
      else
        (case re (c # cs) of
           Some len \<Rightarrow> regex_remove re (len - 1) cs
         | None \<Rightarrow> c # regex_remove re 0 cs))"

text \<open>
  \<open>variableRegex\<close> is \<open>\{\{\s*\$([a-zA-Z0-9_\-]+)\s*\}\}\<close>. No character belongs to two
  adjacent parts of the pattern, so the greedy reading is the only one.
\<close>

definition variableRegex :: "string \<Rightarrow> (string \<times> nat) option" where
  "variableRegex s =
     (if starts_with ''{{'' s then
        (case dropWhile is_space (drop 2 s) of
           [] \<Rightarrow> None
         | d # r1 \<Rightarrow>
             (let name = takeWhile is_seg_char r1;
                  r2 = dropWhile is_space (dropWhile is_seg_char r1) in
              if d = CHR ''$'' \<and> name \<noteq> [] \<and> starts_with ''}}'' r2
              then Some (name, length s - length r2 + 2) else None))
      else None)"

text \<open>
  \<open>referenceRegex\<close> is \<open>\{\{\s*([^\}]+)\s*\}\}\<close>. After the two opening braces the
  match must run over at least one character other than a closing brace, up to the first
  closing brace, which must be doubled. The group \<open>[^\}]+\<close> is what is left of that run
  after the leading white space that \<open>\s*\<close> takes first; when the run is white space
  only, \<open>\s*\<close> gives its last character back to the group.
\<close>

definition referenceRegex :: "string \<Rightarrow> (string \<times> nat) option" where
  "referenceRegex s =
     (if starts_with ''{{'' s then
        (let run = takeWhile (\<lambda>c. c \<noteq> CHR ''}'') (drop 2 s);
             g = dropWhile is_space run in
         if run \<noteq> [] \<and> starts_with ''}}'' (drop (2 + length run) s)
         then Some (if g = [] then [last run] else g, length run + 4) else None)
      else None)"

text \<open>The test \<open>/^\$[a-zA-Z0-9_\-]+$/\<close> that tells a variable from a reference.\<close>

definition is_variable_reference :: "string \<Rightarrow> bool" where
  "is_variable_reference r =
     (case r of [] \<Rightarrow> False | c # cs \<Rightarrow> c = CHR ''$'' \<and> cs \<noteq> [] \<and> list_all is_seg_char cs)"

text \<open>
  The pattern \<open>\{\{\s*REF\s*\}\}\<close> built from an escaped reference text. The first \<open>\s*\<close>
  takes as much white space as it can and gives it back one character at a time while
  the rest does not match.
\<close>

definition after_reference :: "string \<Rightarrow> string \<Rightarrow> nat option" where
  "after_reference r s =
     (if starts_with r s then
        (let r2 = dropWhile is_space (drop (length r) s) in
         if starts_with ''}}'' r2 then Some (length r2 - 2) else None)
      else None)"

fun after_spaces :: "string \<Rightarrow> string \<Rightarrow> nat option" where
  "after_spaces r [] = after_reference r []"
| "after_spaces r (c # cs) =
     (if is_space c then
        (case after_spaces r cs of Some n \<Rightarrow> Some n | None \<Rightarrow> after_reference r (c # cs))
      else after_reference r (c # cs))"

definition tokenRegex :: "string \<Rightarrow> string \<Rightarrow> nat option" where
  "tokenRegex r s =
     (if starts_with ''{{'' s then
        (case after_spaces r (drop 2 s) of
           Some left \<Rightarrow> Some (length s - left)
         | None \<Rightarrow> None)
      else None)"

definition remove_tokens :: "string list \<Rightarrow> string \<Rightarrow> string" where
  "remove_tokens referencesToRemove c =
     foldl (\<lambda>newContent refToRemove. regex_remove (tokenRegex refToRemove) 0 newContent)
       c referencesToRemove"

text \<open>\<open>[...new Set(xs)]\<close> keeps the first occurrence of every element.\<close>

definition new_Set :: "'a list \<Rightarrow> 'a list" where
  "new_Set xs = rev (remdups (rev xs))"

section \<open>Parsing a template (parseMarkdownTemplate)\<close>

text \<open>
  \<open>ParsedMarkdownTemplate\<close> and \<open>TemplateTreeNode\<close>. A node is a parsed template with
  its \<open>ancestors\<close> and its optional \<open>children\<close>; a field that is \<open>undefined\<close> is
  \<^const>\<open>None\<close>. A parsed template that has not been made a node yet has no ancestors
  and no children.
\<close>

datatype TemplateTreeNode = TemplateTreeNode
  (path: string)
  (frontmatter: "(string \<times> string) list option")
  (content: string)
  (variables: "string list")
  (references: "string list")
  (ancestors: "string list")
  (children: "TemplateTreeNode list option")

text \<open>\<open>getContentRelative\<close>: the selector is always fetched as a relative one.\<close>

definition getContentRelative :: "directory \<Rightarrow> string \<Rightarrow> md_file option \<times> diagnostic list" where
  "getContentRelative dir templateSelector = getTemplateContent dir templateSelector Relative"

definition parseFrontmatter :: "md_file \<Rightarrow> (string \<times> string) list option \<times> string" where
  "parseFrontmatter parsed = (if data parsed = [] then None else Some (data parsed), body parsed)"

definition extractVariables :: "string \<Rightarrow> string list" where
  "extractVariables c = map (\<lambda>(start, end, name). name) (regex_exec variableRegex 0 0 c)"

text \<open>
  The loop of \<open>extractReferencesFromContent\<close> over the matches of \<open>referenceRegex\<close>. Its
  state is the four lists the source fills: \<open>replacements\<close>, \<open>normalizedReferences\<close>,
  \<open>referencesToRemove\<close> and the warnings. \<open>normalized ?? ref\<close> keeps the literal text of
  a reference that does not normalize. The test \<open>removeLoopedReferences && currentPath\<close>
  fails for an undefined and for an empty \<open>currentPath\<close>.
\<close>

fun collect_references ::
  "directory \<Rightarrow> string option \<Rightarrow> string list \<Rightarrow> bool \<Rightarrow> bool \<Rightarrow> (nat \<times> nat \<times> string) list \<Rightarrow>
   (nat \<times> nat \<times> string) list \<times> string list \<times> string list \<times> diagnostic list \<Rightarrow>
   (nat \<times> nat \<times> string) list \<times> string list \<times> string list \<times> diagnostic list" where
  "collect_references dir currentPath ancs removeLoopedReferences normalizeInContent []
     st = st"
| "collect_references dir currentPath ancs removeLoopedReferences normalizeInContent
     ((start, end, g) # ms) (replacements, normalizedReferences, referencesToRemove, log) =
     (let ref = trim g in
      if is_variable_reference ref then
        collect_references dir currentPath ancs removeLoopedReferences normalizeInContent ms
          (replacements, normalizedReferences, referencesToRemove, log)
      else
        (let (normalized, w) = normalizeToRelativeSelector dir ref;
             normalizedRef = (case normalized of None \<Rightarrow> ref | Some n \<Rightarrow> n);
             cur = (case currentPath of None \<Rightarrow> [] | Some p \<Rightarrow> p) in
         if removeLoopedReferences \<and> cur \<noteq> [] \<and> normalizedRef = cur then
           collect_references dir currentPath ancs removeLoopedReferences normalizeInContent ms
             (replacements, normalizedReferences, referencesToRemove @ [ref],
              log @ w @ [SelfReference cur])
         else if removeLoopedReferences \<and> cur \<noteq> [] \<and> normalizedRef \<in> set ancs then
           collect_references dir currentPath ancs removeLoopedReferences normalizeInContent ms
             (replacements, normalizedReferences, referencesToRemove @ [ref],
              log @ w @ [LoopDetected cur [normalizedRef]])
         else
           collect_references dir currentPath ancs removeLoopedReferences normalizeInContent ms
             (if normalizeInContent
              then replacements @ [(start, end, ''{{ '' @ normalizedRef @ '' }}'')]
              else replacements,
              normalizedReferences @ [normalizedRef], referencesToRemove, log @ w)))"

text \<open>
  \<open>contentArr.splice(start, end - start, replacement)\<close>, applied from the last
  replacement to the first on the array of the characters of the content.
\<close>

definition splice_replacements :: "(nat \<times> nat \<times> string) list \<Rightarrow> string \<Rightarrow> string" where
  "splice_replacements replacements updatedContent =
     concat (foldr (\<lambda>(start, end, replacement) contentArr.
                      take start contentArr @ [replacement] @ drop end contentArr)
               replacements (map (\<lambda>c. [c]) updatedContent))"

definition extractReferencesFromContent ::
  "directory \<Rightarrow> string \<Rightarrow> string option \<Rightarrow> string list \<Rightarrow> bool \<Rightarrow> bool \<Rightarrow>
   (string list \<times> string) \<times> diagnostic list" where
  "extractReferencesFromContent dir c currentPath ancs removeLoopedReferences normalizeInContent =
     (let (replacements, normalizedReferences, referencesToRemove, log) =
            collect_references dir currentPath ancs removeLoopedReferences normalizeInContent
              (regex_exec referenceRegex 0 0 c) ([], [], [], []);
          removed = (if removeLoopedReferences \<and> referencesToRemove \<noteq> []
                     then remove_tokens referencesToRemove c else c);
          updatedContent = (if normalizeInContent \<and> replacements \<noteq> []
                            then splice_replacements replacements removed else removed) in
      ((new_Set normalizedReferences, updatedContent), log))"

text \<open>
  \<open>parseMarkdown\<close>: a missing file gives the empty template. The path of the result is
  the selector as it was given.
\<close>

definition parseMarkdown :: "directory \<Rightarrow> string \<Rightarrow> TemplateTreeNode \<times> diagnostic list" where
  "parseMarkdown dir templateSelector =
     (case getContentRelative dir templateSelector of
        (Some file, w) \<Rightarrow>
          (let (fm, c) = parseFrontmatter file;
               vars = extractVariables c;
               ((refs, newContent), w') = extractReferencesFromContent dir c None [] False True in
           (TemplateTreeNode templateSelector fm newContent vars refs [] None, w @ w'))
      | (None, w) \<Rightarrow> (TemplateTreeNode templateSelector None [] [] [] [] None, w))"

section \<open>Loop filtering (removeReferenceFromNode, filterLoopedReferences)\<close>

definition removeReferenceFromNode :: "TemplateTreeNode \<Rightarrow> string list \<Rightarrow> TemplateTreeNode" where
  "removeReferenceFromNode templateNode referencesToRemove =
     TemplateTreeNode (path templateNode) (frontmatter templateNode)
       (remove_tokens referencesToRemove (content templateNode))
       (variables templateNode)
       (filter (\<lambda>ref. ref \<notin> set referencesToRemove) (references templateNode))
       (ancestors templateNode) (children templateNode)"

definition filterLoopedReferences :: "TemplateTreeNode \<Rightarrow> TemplateTreeNode \<times> diagnostic list" where
  "filterLoopedReferences templateNode =
     (let currentPath = path templateNode;
          (filteredNode, w) =
            (if currentPath \<in> set (references templateNode)
             then (removeReferenceFromNode templateNode [currentPath], [SelfReference currentPath])
             else (templateNode, []));
          loopedReferences =
            filter (\<lambda>ref. ref \<in> set (ancestors templateNode)) (references filteredNode) in
      if length loopedReferences > 0
      then (removeReferenceFromNode filteredNode loopedReferences,
            w @ [LoopDetected currentPath loopedReferences])
      else (filteredNode, w))"

definition getNodeFromSelector ::
  "directory \<Rightarrow> string \<Rightarrow> string list \<Rightarrow> TemplateTreeNode \<times> diagnostic list" where
  "getNodeFromSelector dir rootSelector ancs =
     (let (templateNode, w) = parseMarkdown dir rootSelector;
          (filtered, w') =
            filterLoopedReferences
              (TemplateTreeNode (path templateNode) (frontmatter templateNode)
                 (content templateNode) (variables templateNode) (references templateNode)
                 ancs (children templateNode)) in
      (filtered, w @ w'))"

section \<open>The template engine (Mustache.render)\<close>

text \<open>
  \<open>Mustache.render\<close> belongs to the library mustache.js, not to this repository. The
  model below covers what the composition relies on:
  \<^item> a tag opens with two braces and the white space after them, and closes at the
    first place where optional white space and two closing braces stand;
  \<^item> a tag whose first character is none of \<open>#^/>{&=!\<close> is a variable: it is replaced
    by the value of its name in the view, HTML-escaped, and by the empty string when the
    view has no such name;
  \<^item> a tag that is never closed, a section that is opened and never closed and a closing
    tag that closes no open section make the library throw.
  The view is a JavaScript object whose own properties are strings (a number is the
  string \<open>String\<close> makes of it, which escaping leaves as it is), modelled as a map. The
  library finds a name with the operator \<open>in\<close>, so it also finds the names that every
  object inherits from \<open>Object.prototype\<close>. What the library does with such a name when
  the view has no property of its own under it, and with a well-nested section, a
  partial, a comment, an unescaped tag, a change of delimiters or a dotted name, is left
  out: the model answers \<open>Unmodelled_template\<close> and no theorem below says anything about
  such a template.
\<close>

datatype mustache_error =
    Unclosed_tag
  | Unclosed_section string
  | Unopened_section string

datatype error =
    InvalidTemplateSelectorError
  | MustacheError mustache_error
  | Unmodelled_template

text \<open>The library's \<open>entityMap\<close> and \<open>escapeHtml\<close>.\<close>

definition fromEntityMap :: "char \<Rightarrow> string" where
  "fromEntityMap c =
     (if c = CHR ''&'' then ''&amp;''
      else if c = CHR ''<'' then ''&lt;''
      else if c = CHR ''>'' then ''&gt;''
      else if c = CHR 0x22 then ''&quot;''
      else if c = CHR 0x27 then ''&#39;''
      else if c = CHR ''/'' then ''&#x2F;''
      else if c = CHR 0x60 then ''&#x60;''
      else if c = CHR ''='' then ''&#x3D;''
      else [c])"

definition escapeHtml :: "string \<Rightarrow> string" where
  "escapeHtml s = concat (map fromEntityMap s)"

text \<open>\<open>scanner.scanUntil(openingTagRe)\<close>: the text before the next tag, and the rest.\<close>

fun until_open :: "string \<Rightarrow> string \<times> string" where
  "until_open [] = ([], [])"
| "until_open (c # cs) =
     (if starts_with ''{{'' (c # cs) then ([], c # cs)
      else (let (t, r) = until_open cs in (c # t, r)))"

text \<open>
  \<open>scanner.scanUntil(closingTagRe)\<close> followed by \<open>scanner.scan(closingTagRe)\<close>: the
  value of the tag and what follows the closing braces, or nothing when the tag is not
  closed.
\<close>

fun until_close :: "string \<Rightarrow> (string \<times> string) option" where
  "until_close [] = None"
| "until_close (c # cs) =
     (let r = dropWhile is_space (c # cs) in
      if starts_with ''}}'' r then Some ([], drop 2 r)
      else (case until_close cs of None \<Rightarrow> None | Some (v, r') \<Rightarrow> Some (c # v, r')))"

text \<open>
  A name is looked up part by part when its first dot is not its first character; the
  name \<open>.\<close> is the view itself.
\<close>

definition dotted_name :: "string \<Rightarrow> bool" where
  "dotted_name name \<longleftrightarrow>
     name = ''.'' \<or> (case name of [] \<Rightarrow> False | c # cs \<Rightarrow> c \<noteq> CHR ''.'' \<and> CHR ''.'' \<in> set cs)"

text \<open>The names of the properties of \<open>Object.prototype\<close>.\<close>

definition Object_prototype_names :: "string list" where
  "Object_prototype_names =
     [''constructor'', ''__defineGetter__'', ''__defineSetter__'', ''hasOwnProperty'',
      ''__lookupGetter__'', ''__lookupSetter__'', ''isPrototypeOf'', ''propertyIsEnumerable'',
      ''toString'', ''valueOf'', ''__proto__'', ''toLocaleString'']"

definition inherited_name :: "(string \<rightharpoonup> string) \<Rightarrow> string \<Rightarrow> bool" where
  "inherited_name view name \<longleftrightarrow> view name = None \<and> name \<in> set Object_prototype_names"

lemma until_open_length: "until_open s = (t, r) \<Longrightarrow> length r \<le> length s"
  by (induction s arbitrary: t r) (auto split: if_splits prod.splits)

lemma starts_with_length: "starts_with p s \<Longrightarrow> length p \<le> length s"
  unfolding starts_with_def by (metis length_take min.cobounded1)

lemma until_close_length: "until_close s = Some (v, r) \<Longrightarrow> length r < length s"
proof (induction s arbitrary: v r)
  case Nil
  then show ?case by simp
next
  case (Cons c cs)
  define d where "d = dropWhile is_space (c # cs)"
  have d_le: "length d \<le> length (c # cs)"
    unfolding d_def by (rule length_dropWhile_le)
  show ?case
  proof (cases "starts_with ''}}'' d")
    case True
    then have "2 \<le> length d"
      using starts_with_length by fastforce
    moreover from Cons.prems True have "r = drop 2 d"
      by (simp add: Let_def d_def)
    ultimately show ?thesis
      using d_le by simp
  next
    case False
    with Cons.prems obtain v' where "until_close cs = Some (v', r)"
      by (auto simp: Let_def d_def split: option.splits)
    from Cons.IH [OF this] show ?thesis by simp
  qed
qed

lemma after_open_length:
  assumes "(t, y) = until_open template" and "dropWhile is_space (drop 2 y) = c # r1"
  shows "length (c # r1) \<le> length template"
proof -
  have "length (c # r1) \<le> length (drop 2 y)"
    using assms(2) length_dropWhile_le [of is_space "drop 2 y"] by simp
  also have "\<dots> \<le> length y" by simp
  also have "\<dots> \<le> length template"
    using assms(1) until_open_length [of template t y] by simp
  finally show ?thesis .
qed

lemma section_tag_shorter:
  assumes "(t, y) = until_open template" and "dropWhile is_space (drop 2 y) = c # r1"
    and "until_close (dropWhile is_space r1) = Some (v, r2)"
  shows "length r2 < length template"
proof -
  have "length r2 < length (dropWhile is_space r1)"
    using assms(3) by (rule until_close_length)
  also have "\<dots> \<le> length r1" by (rule length_dropWhile_le)
  also have "\<dots> \<le> length template"
    using after_open_length [OF assms(1,2)] by simp
  finally show ?thesis .
qed

lemma name_tag_shorter:
  assumes "(t, y) = until_open template" and "dropWhile is_space (drop 2 y) = c # r1"
    and "until_close (c # r1) = Some (v, r2)"
  shows "length r2 < length template"
  using until_close_length [OF assms(3)] after_open_length [OF assms(1,2)] by simp

text \<open>
  The scan of a template, left to right: \<open>sections\<close> is the stack of the open sections,
  \<open>out\<close> the text rendered so far.
\<close>

function render_from ::
  "(string \<rightharpoonup> string) \<Rightarrow> string list \<Rightarrow> string \<Rightarrow> string \<Rightarrow> error + string" where
  "render_from view sections out template =
     (case until_open template of
        (text, rest) \<Rightarrow>
          if rest = [] then
            (case sections of
               [] \<Rightarrow> Inr (out @ text)
             | openSection # _ \<Rightarrow> Inl (MustacheError (Unclosed_section openSection)))
          else
            (case dropWhile is_space (drop 2 rest) of
               [] \<Rightarrow> Inl (MustacheError Unclosed_tag)
             | type # r1 \<Rightarrow>
                 if type \<in> set ''#^/'' then
                   (case until_close (dropWhile is_space r1) of
                      None \<Rightarrow> Inl (MustacheError Unclosed_tag)
                    | Some (v, r2) \<Rightarrow>
                        if type = CHR ''/'' then
                          (case sections of
                             [] \<Rightarrow> Inl (MustacheError (Unopened_section v))
                           | openSection # _ \<Rightarrow>
                               if openSection \<noteq> v
                               then Inl (MustacheError (Unclosed_section openSection))
                               else Inl Unmodelled_template)
                        else render_from view (v # sections) (out @ text) r2)
                 else if type \<in> set ''>{&=!'' then Inl Unmodelled_template
                 else
                   (case until_close (type # r1) of
                      None \<Rightarrow> Inl (MustacheError Unclosed_tag)
                    | Some (name, r2) \<Rightarrow>
                        if dotted_name name \<or> inherited_name view name
                        then Inl Unmodelled_template
                        else render_from view sections
                               (out @ text @ (case view name of None \<Rightarrow> [] | Some v \<Rightarrow> escapeHtml v))
                               r2)))"
  by pat_completeness auto
termination
  by (relation "measure (\<lambda>(view, sections, out, template). length template)")
     (auto intro: section_tag_shorter name_tag_shorter)

declare render_from.simps [simp del]

definition Mustache_render :: "string \<Rightarrow> (string \<rightharpoonup> string) \<Rightarrow> error + string" where
  "Mustache_render template view = render_from view [] [] template"

section \<open>Variables and overrides\<close>

text \<open>
  \<open>TemplateVariables\<close> and \<open>TemplateOverrides\<close> are JavaScript objects, modelled as
  association lists with distinct keys in the order of \<open>Object.entries\<close>; a number is the
  string \<open>String\<close> makes of it. \<open>spread a b\<close> is \<open>{ ...a, ...b }\<close> and \<open>fromEntries\<close> is
  \<open>Object.fromEntries\<close>: a later entry replaces the value of an earlier one with the
  same key.
\<close>

type_synonym TemplateVariables = "(string \<times> string) list"
type_synonym TemplateOverrides = "(string \<times> TemplateVariables) list"

definition spread :: "('k \<times> 'v) list \<Rightarrow> ('k \<times> 'v) list \<Rightarrow> ('k \<times> 'v) list" where
  "spread a b = foldl (\<lambda>obj (k, v). AList.update k v obj) a b"

definition fromEntries :: "('k \<times> 'v) list \<Rightarrow> ('k \<times> 'v) list" where
  "fromEntries entries = spread [] entries"

text \<open>
  \<open>assignEntries\<close> is a loop of assignments \<open>obj[key] = value\<close> of strings to an empty
  object. It differs from \<open>Object.fromEntries\<close> at one key: assigning a string to
  \<open>__proto__\<close> sets no property.
\<close>

definition assignEntries :: "(string \<times> 'v) list \<Rightarrow> (string \<times> 'v) list" where
  "assignEntries entries = fromEntries (filter (\<lambda>(key, val). key \<noteq> ''__proto__'') entries)"

text \<open>
  The state of a \<open>Mosaic\<close> instance: its directory and the two services that \<open>compose\<close>
  provides as \<open>MosaicVariables\<close>. \<open>compose\<close> always provides them, so the branch of
  \<open>extractTemplateVariables\<close> for a missing service is not modelled.
\<close>

record Mosaic =
  instructionsDir :: directory
  templateVariables :: TemplateVariables
  templateOverrides :: TemplateOverrides

text \<open>
  \<open>normalizeOverridesPaths\<close>: every key is normalized; an entry whose key does not
  normalize (\<open>null\<close>, or the empty string, which is falsy too) is dropped.
\<close>

definition normalizeOverridesPaths ::
  "directory \<Rightarrow> TemplateOverrides \<Rightarrow> TemplateOverrides \<times> diagnostic list" where
  "normalizeOverridesPaths dir overrides =
     (let results =
            map (\<lambda>(key, val).
                   (case normalizeToRelativeSelector dir key of
                      (Some normalizedKey, w) \<Rightarrow>
                        (if normalizedKey \<noteq> [] then [(normalizedKey, val)] else [], w)
                    | (None, w) \<Rightarrow> ([], w)))
              overrides in
      (fromEntries (concat (map fst results)), concat (map snd results)))"

definition provideVariables :: "Mosaic \<Rightarrow> TemplateVariables \<Rightarrow> Mosaic" where
  "provideVariables m vars = m\<lparr>templateVariables := spread (templateVariables m) vars\<rparr>"


text \<open>
  \<open>extractTemplateVariables\<close>: the variables merged with the overrides of the current
  path, every key prefixed with the dollar sign.
\<close>

definition extractTemplateVariables ::
  "Mosaic \<Rightarrow> string \<Rightarrow> TemplateVariables \<times> diagnostic list" where
  "extractTemplateVariables m currentPath =
     (let (normalizedOverrides, w) =
            normalizeOverridesPaths (instructionsDir m) (templateOverrides m);
          pathOverrides =
            (case map_of normalizedOverrides currentPath of None \<Rightarrow> [] | Some vars \<Rightarrow> vars);
          mergedVariables = spread (templateVariables m) pathOverrides;
          prefixedVariables =
            assignEntries (map (\<lambda>(key, val). (CHR ''$'' # key, val)) mergedVariables) in
      (prefixedVariables, w))"

section \<open>Building the tree (buildTemplateTree)\<close>

text \<open>
  \<open>attachChildren\<close>: \<open>Effect.forEach\<close> over the references, in order. An exception of
  the template engine ends the loop.
\<close>

fun attach_each ::
  "Mosaic \<Rightarrow> string list \<Rightarrow> string list \<Rightarrow> (error + TemplateTreeNode list) \<times> diagnostic list" where
  "attach_each m ancs [] = (Inr [], [])"
| "attach_each m ancs (ref # refs) =
     (let (childNode, w1) = getNodeFromSelector (instructionsDir m) ref ancs;
          (childTemplateVariables, w2) = extractTemplateVariables m (path childNode) in
      case Mustache_render (content childNode) (map_of childTemplateVariables) of
        Inl e \<Rightarrow> (Inl e, w1 @ w2)
      | Inr expandedContent \<Rightarrow>
          (case attach_each m ancs refs of
             (Inl e, w3) \<Rightarrow> (Inl e, w1 @ w2 @ w3)
           | (Inr rest, w3) \<Rightarrow>
               (Inr (TemplateTreeNode (path childNode) (frontmatter childNode) expandedContent
                       (variables childNode) (references childNode) (ancestors childNode)
                       (children childNode) # rest),
                w1 @ w2 @ w3)))"

definition attachChildren ::
  "Mosaic \<Rightarrow> TemplateTreeNode \<Rightarrow> (error + TemplateTreeNode) \<times> diagnostic list" where
  "attachChildren m rootNode =
     (case attach_each m (ancestors rootNode @ [path rootNode]) (references rootNode) of
        (Inl e, w) \<Rightarrow> (Inl e, w)
      | (Inr cs, w) \<Rightarrow>
          (Inr (TemplateTreeNode (path rootNode) (frontmatter rootNode) (content rootNode)
                  (variables rootNode) (references rootNode) (ancestors rootNode) (Some cs)),
           w))"

text \<open>
  \<open>flattenChildrenAndExpandContent\<close>: the view gets the content of every child under
  the path of the child, a later child replacing an earlier one with the same path.
\<close>

definition flattenChildrenAndExpandContent ::
  "directory \<Rightarrow> TemplateTreeNode \<Rightarrow> (error + TemplateTreeNode) \<times> diagnostic list" where
  "flattenChildrenAndExpandContent dir rootNode =
     (let cs = (case children rootNode of None \<Rightarrow> [] | Some cs \<Rightarrow> cs) in
      if length cs = 0 then (Inr rootNode, [])
      else
        (let mustacheContext = assignEntries (map (\<lambda>child. (path child, content child)) cs) in
         case Mustache_render (content rootNode) (map_of mustacheContext) of
           Inl e \<Rightarrow> (Inl e, [])
         | Inr expandedContent \<Rightarrow>
             (let ((newReferences, finalContent), w) =
                    extractReferencesFromContent dir expandedContent
                      (Some (path rootNode)) (ancestors rootNode) True False in
              (Inr (TemplateTreeNode (path rootNode) (frontmatter rootNode) finalContent
                      (variables rootNode) newReferences (ancestors rootNode) (Some [])),
               w))))"

text \<open>One turn of the loop of \<open>expandAndFlattenRecursively\<close>.\<close>

definition expand_step ::
  "Mosaic \<Rightarrow> TemplateTreeNode \<Rightarrow> (error + TemplateTreeNode) \<times> diagnostic list" where
  "expand_step m currentNode =
     (case attachChildren m currentNode of
        (Inl e, w) \<Rightarrow> (Inl e, w)
      | (Inr nodeWithChildren, w) \<Rightarrow>
          (case flattenChildrenAndExpandContent (instructionsDir m) nodeWithChildren of
             (r, w') \<Rightarrow> (r, w @ w')))"

text \<open>
  The loop itself may run forever, so it is a partial function: the value \<^const>\<open>None\<close>
  is a loop that does not end. The warnings written so far are part of its state.
\<close>

partial_function (option) expandAndFlattenRecursively ::
  "Mosaic \<Rightarrow> TemplateTreeNode \<times> diagnostic list \<Rightarrow>
   ((error + TemplateTreeNode) \<times> diagnostic list) option" where
  "expandAndFlattenRecursively m st =
     (case st of
        (currentNode, log) \<Rightarrow>
          if length (references currentNode) > 0 then
            (case expand_step m currentNode of
               (Inl e, w) \<Rightarrow> Some (Inl e, log @ w)
             | (Inr next, w) \<Rightarrow> expandAndFlattenRecursively m (next, log @ w))
          else Some (Inr currentNode, log))"

declare expandAndFlattenRecursively.simps [code]

definition buildTemplateTree ::
  "Mosaic \<Rightarrow> string \<Rightarrow> ((error + TemplateTreeNode) \<times> diagnostic list) option" where
  "buildTemplateTree m rootSelector =
     expandAndFlattenRecursively m (getNodeFromSelector (instructionsDir m) rootSelector [])"

section \<open>Composing (Mosaic.compose)\<close>

text \<open>
  \<open>compose\<close> returns the final content, or throws: \<open>Inl\<close> is the exception that
  \<open>Effect.runSync\<close> raises. The second component is what was written to the console.
\<close>

definition compose :: "Mosaic \<Rightarrow> string \<Rightarrow> ((error + string) \<times> diagnostic list) option" where
  "compose m templateSelector =
     (case isValidTemplateSelector templateSelector of
        None \<Rightarrow> Some (Inl InvalidTemplateSelectorError, [NotAValidSelector templateSelector])
      | Some type \<Rightarrow>
          (case buildTemplateTree m templateSelector of
             None \<Rightarrow> None
           | Some (Inl e, w) \<Rightarrow> Some (Inl e, w)
           | Some (Inr finalNode, w) \<Rightarrow> Some (Inr (content finalNode), w)))"

section \<open>The nodes of a composition\<close>

text \<open>
  The invariant of a node: its path is not one of its ancestors, none of its references
  is one of its ancestors, and its path is not one of its references.
\<close>

definition node_invariant :: "TemplateTreeNode \<Rightarrow> bool" where
  "node_invariant n \<longleftrightarrow>
     path n \<notin> set (ancestors n)
     \<and> set (references n) \<inter> set (ancestors n) = {}
     \<and> path n \<notin> set (references n)"

text \<open>
  The values that \<open>currentNode\<close> takes in the loop of \<open>expandAndFlattenRecursively\<close>,
  when \<open>compose\<close> is called with a valid selector: the node of the root selector, and
  the result of every turn of the loop.
\<close>

inductive current_node :: "Mosaic \<Rightarrow> string \<Rightarrow> TemplateTreeNode \<Rightarrow> bool"
  for m :: Mosaic and rootSelector :: string where
  initial:
    "isValidTemplateSelector rootSelector = Some type \<Longrightarrow>
     getNodeFromSelector (instructionsDir m) rootSelector [] = (n, w) \<Longrightarrow>
     current_node m rootSelector n"
| flattened:
    "current_node m rootSelector n \<Longrightarrow> 0 < length (references n) \<Longrightarrow>
     expand_step m n = (Inr n', w) \<Longrightarrow>
     current_node m rootSelector n'"

text \<open>
  Every node that a composition builds: the values of \<open>currentNode\<close>, the child that
  \<open>attachChildren\<close> builds for a reference of such a node (before and after its content
  is expanded), and the node with its children attached.
\<close>

inductive produced :: "Mosaic \<Rightarrow> string \<Rightarrow> TemplateTreeNode \<Rightarrow> bool"
  for m :: Mosaic and rootSelector :: string where
  current:
    "current_node m rootSelector n \<Longrightarrow> produced m rootSelector n"
| child:
    "current_node m rootSelector n \<Longrightarrow> ref \<in> set (references n) \<Longrightarrow>
     getNodeFromSelector (instructionsDir m) ref (ancestors n @ [path n]) = (c, w) \<Longrightarrow>
     produced m rootSelector c"
| with_children:
    "current_node m rootSelector n \<Longrightarrow> 0 < length (references n) \<Longrightarrow>
     attachChildren m n = (Inr n', w) \<Longrightarrow>
     produced m rootSelector n'"
| expanded_child:
    "current_node m rootSelector n \<Longrightarrow> 0 < length (references n) \<Longrightarrow>
     attachChildren m n = (Inr n', w) \<Longrightarrow> children n' = Some cs \<Longrightarrow> c \<in> set cs \<Longrightarrow>
     produced m rootSelector c"

section \<open>Templates made of text and tokens\<close>











section \<open>What composing does on small directories\<close>

text \<open>
  A turn of the loop that gives the node back unchanged, with references left and
  nothing written, is a loop that never ends.
\<close>

lemma loop_fixed_point:
  assumes step: "expand_step m n = (Inr n, [])" and refs: "references n \<noteq> []"
  shows "expandAndFlattenRecursively m (n, log) = None"
proof (rule ccontr)
  assume "expandAndFlattenRecursively m (n, log) \<noteq> None"
  then obtain r where r: "expandAndFlattenRecursively m (n, log) = Some r" by auto
  have "\<not> (m = m \<and> (n, log) = (n, log))"
  proof (rule expandAndFlattenRecursively.raw_induct
      [where P = "\<lambda>m' st r. \<not> (m' = m \<and> st = (n, log))", OF _ r])
    fix f m' st r'
    assume IH: "\<And>m' st r. f m' st = Some r \<Longrightarrow> \<not> (m' = m \<and> st = (n, log))"
      and unfolded: "(case st of
        (currentNode, log) \<Rightarrow>
          if length (references currentNode) > 0 then
            (case expand_step m' currentNode of
               (Inl e, w) \<Rightarrow> Some (Inl e, log @ w)
             | (Inr next, w) \<Rightarrow> f m' (next, log @ w))
          else Some (Inr currentNode, log)) = Some r'"
    show "\<not> (m' = m \<and> st = (n, log))"
    proof
      assume "m' = m \<and> st = (n, log)"
      with unfolded step refs have "f m (n, log) = Some r'" by simp
      from IH [OF this] show False by simp
    qed
  qed
  then show False by simp
qed

text \<open>
  C1 (what the code does): composition does not reach a grandchild. In a directory where
  \<open>a\<close> is \<open>A {{ b }}\<close>, \<open>b\<close> is \<open>B {{ c }}\<close> and \<open>c\<close> is \<open>C\<close>, the content of \<open>b\<close> is
  rendered with the variables of \<open>b\<close> before it is put into \<open>a\<close>, and that rendering
  replaces the token \<open>{{ c }}\<close> by the empty string: the result is \<open>A B \<close>, without the
  content of \<open>c\<close>. A token can survive the rendering of the child only as the value of a
  variable. When \<open>b\<close> is \<open>{{ $x }}\<close> and \<open>x\<close> is the text \<open>{{ @c }}\<close>, the reference is found
  in the new content of \<open>a\<close> and \<open>c\<close> is built as a child, but the token still reads
  \<open>@c\<close> while the view has the key \<open>c\<close>: the result is the empty string, again without
  the content of \<open>c\<close>.
\<close>

theorem compose_drops_grandchild:
  "compose \<lparr>instructionsDir =
              [(''a'', \<lparr>id_lines = [], data = [], body = ''A {{ b }}''\<rparr>),
               (''b'', \<lparr>id_lines = [], data = [], body = ''B {{ c }}''\<rparr>),
               (''c'', \<lparr>id_lines = [], data = [], body = ''C''\<rparr>)],
            templateVariables = [], templateOverrides = []\<rparr> ''a''
   = Some (Inr ''A B '', [])
   \<and> compose \<lparr>instructionsDir =
              [(''a'', \<lparr>id_lines = [], data = [], body = ''{{ b }}''\<rparr>),
               (''b'', \<lparr>id_lines = [], data = [], body = ''{{ $x }}''\<rparr>),
               (''c'', \<lparr>id_lines = [], data = [], body = ''C''\<rparr>)],
            templateVariables = [(''x'', ''{{ @c }}'')], templateOverrides = []\<rparr> ''a''
   = Some (Inr [], [])"
  by code_simp

text \<open>
  C2 (what the code does): with the variable \<open>name = World\<close>, a root whose content is
  \<open>Hi {{ $name }}\<close>, a line feed and \<open>{{ other }}\<close>, and a file \<open>other\<close> whose content is
  \<open>nested\<close>, \<open>compose\<close> returns \<open>Hi \<close>, a line feed and \<open>nested\<close>: the content of the root
  is rendered with the contents of its children only, so its own variable is replaced
  by the empty string. A root without any reference is not rendered at all: it is
  returned with its variable tokens in it, those of a known and those of a missing key.
\<close>

theorem compose_root_variable_not_substituted:
  "compose \<lparr>instructionsDir =
              [(''root'', \<lparr>id_lines = [], data = [], body = ''Hi {{ $name }}'' @ [CHR 0x0A] @ ''{{ other }}''\<rparr>),
               (''other'', \<lparr>id_lines = [], data = [], body = ''nested''\<rparr>)],
            templateVariables = [(''name'', ''World'')], templateOverrides = []\<rparr> ''root''
   = Some (Inr (''Hi '' @ [CHR 0x0A] @ ''nested''), [])
   \<and> compose \<lparr>instructionsDir =
                [(''root'', \<lparr>id_lines = [], data = [], body = ''Hi {{ $name }}{{ $missing }}''\<rparr>)],
              templateVariables = [(''name'', ''World'')], templateOverrides = []\<rparr> ''root''
   = Some (Inr ''Hi {{ $name }}{{ $missing }}'', [])"
  by code_simp

text \<open>
  C3 (what the code does): \<open>compose\<close> does not return on the directory where \<open>A\<close> is
  \<open>{{ B }}\<close> and \<open>B\<close> is \<open>{{ $x }}\<close>, with the variable \<open>x\<close> set to the text \<open>{{ B }}\<close>. Every
  turn of the loop renders \<open>B\<close> to \<open>{{ B }}\<close> and puts it into \<open>A\<close>, whose content and
  references are then what they were before the turn; \<open>B\<close> is neither \<open>A\<close> nor an ancestor
  of \<open>A\<close>, so loop filtering keeps it.
\<close>

theorem compose_does_not_return:
  "compose \<lparr>instructionsDir =
              [(''A'', \<lparr>id_lines = [], data = [], body = ''{{ B }}''\<rparr>),
               (''B'', \<lparr>id_lines = [], data = [], body = ''{{ $x }}''\<rparr>)],
            templateVariables = [(''x'', ''{{ B }}'')], templateOverrides = []\<rparr> ''A''
   = None"
proof -
  define m where "m = \<lparr>instructionsDir =
              [(''A'', \<lparr>id_lines = [], data = [], body = ''{{ B }}''\<rparr>),
               (''B'', \<lparr>id_lines = [], data = [], body = ''{{ $x }}''\<rparr>)],
            templateVariables = [(''x'', ''{{ B }}'')], templateOverrides = []\<rparr>"
  define n0 where "n0 = TemplateTreeNode ''A'' None ''{{ B }}'' [] [''B''] [] None"
  define n1 where "n1 = TemplateTreeNode ''A'' None ''{{ B }}'' [] [''B''] [] (Some [])"
  have valid: "isValidTemplateSelector ''A'' = Some Relative"
    by code_simp
  have root: "getNodeFromSelector (instructionsDir m) ''A'' [] = (n0, [])"
    unfolding m_def n0_def by code_simp
  have first: "expand_step m n0 = (Inr n1, [])"
    unfolding m_def n0_def n1_def by code_simp
  have again: "expand_step m n1 = (Inr n1, [])"
    unfolding m_def n1_def by code_simp
  have refs: "references n0 \<noteq> []"
    by (simp add: n0_def)
  have "expandAndFlattenRecursively m (n0, []) = expandAndFlattenRecursively m (n1, [])"
    by (subst expandAndFlattenRecursively.simps) (simp add: first refs)
  also have "\<dots> = None"
    by (rule loop_fixed_point [OF again]) (simp add: n1_def)
  finally have "buildTemplateTree m ''A'' = None"
    by (simp add: buildTemplateTree_def root)
  then have "compose m ''A'' = None"
    by (simp add: compose_def valid)
  then show ?thesis
    unfolding m_def .
qed

text \<open>
  C4 (what the code does): a relative reference is looked up from the root of the
  directory, not from the directory of the template that holds it. With the files
  \<open>company/policies/main\<close>, whose content is \<open>M {{ shared/footer }}\<close>, and
  \<open>company/policies/shared/footer\<close>, the reference is the path \<open>shared/footer\<close>, no such
  file exists, and the result is \<open>M \<close> with the warning that \<open>shared/footer\<close> does not
  exist.
\<close>

theorem relative_reference_resolved_from_root:
  "compose \<lparr>instructionsDir =
              [(''company/policies/main'', \<lparr>id_lines = [], data = [], body = ''M {{ shared/footer }}''\<rparr>),
               (''company/policies/shared/footer'', \<lparr>id_lines = [], data = [], body = ''F''\<rparr>)],
            templateVariables = [], templateOverrides = []\<rparr> ''company/policies/main''
   = Some (Inr ''M '', [DoesNotExist ''shared/footer''])"
  by code_simp

text \<open>
  C5 (what the code does): the selector given to \<open>compose\<close> is fetched as a relative
  path whatever its form. With one file \<open>p\<close> whose frontmatter id is \<open>i\<close> and whose
  content is \<open>hello\<close>, \<open>compose\<close> returns \<open>hello\<close> for \<open>p\<close>, and the empty string for \<open>@p\<close>
  and for \<open>#i\<close>, with the warning that the selector does not exist.
\<close>

theorem root_and_id_selectors_not_normalized:
  "compose \<lparr>instructionsDir = [(''p'', \<lparr>id_lines = [''i''], data = [(''id'', ''i'')], body = ''hello''\<rparr>)],
            templateVariables = [], templateOverrides = []\<rparr> ''p''
   = Some (Inr ''hello'', [])
   \<and> compose \<lparr>instructionsDir = [(''p'', \<lparr>id_lines = [''i''], data = [(''id'', ''i'')], body = ''hello''\<rparr>)],
              templateVariables = [], templateOverrides = []\<rparr> ''@p''
   = Some (Inr [], [DoesNotExist ''@p''])
   \<and> compose \<lparr>instructionsDir = [(''p'', \<lparr>id_lines = [''i''], data = [(''id'', ''i'')], body = ''hello''\<rparr>)],
              templateVariables = [], templateOverrides = []\<rparr> ''#i''
   = Some (Inr [], [DoesNotExist ''#i''])"
  by code_simp

text \<open>
  C6 (what the code does): a reference by an id that no file has keeps its text,
  \<open>#nope\<close>, as its key; the token \<open>{{ #nope }}\<close> stays in the content, where the template
  engine reads it as the opening of a section that is never closed, and throws. With a
  root whose content is \<open>A {{ #nope }} B\<close>, \<open>compose\<close> ends with that exception.
\<close>

theorem missing_id_reference_throws:
  "compose \<lparr>instructionsDir = [(''root'', \<lparr>id_lines = [], data = [], body = ''A {{ #nope }} B''\<rparr>)],
            templateVariables = [], templateOverrides = []\<rparr> ''root''
   = Some (Inl (MustacheError (Unclosed_section ''nope'')), [DoesNotExist ''#nope''])"
  by code_simp

text \<open>
  C10: for every valid selector that is not the path of a file of the directory,
  \<open>compose\<close> returns the empty string, and the only thing written is the warning that
  the selector does not exist. The tree is the empty template at that path: no
  frontmatter, empty content, no variables, no references.
\<close>

theorem compose_missing_root:
  assumes "isValidTemplateSelector selector = Some type"
    and "fst (getTemplateContent (instructionsDir m) selector Relative) = None"
  shows "compose m selector = Some (Inr [], [DoesNotExist selector])
    \<and> buildTemplateTree m selector
      = Some (Inr (TemplateTreeNode selector None [] [] [] [] None), [DoesNotExist selector])"
proof -
  from assms(2) have absent: "map_of (instructionsDir m) selector = None"
    by (auto simp: getTemplateContent_def split: option.splits)
  then have "parseMarkdown (instructionsDir m) selector
      = (TemplateTreeNode selector None [] [] [] [] None, [DoesNotExist selector])"
    by (simp add: parseMarkdown_def getContentRelative_def getTemplateContent_def)
  then have "getNodeFromSelector (instructionsDir m) selector []
      = (TemplateTreeNode selector None [] [] [] [] None, [DoesNotExist selector])"
    by (simp add: getNodeFromSelector_def filterLoopedReferences_def)
  then have tree: "buildTemplateTree m selector
      = Some (Inr (TemplateTreeNode selector None [] [] [] [] None), [DoesNotExist selector])"
    by (simp add: buildTemplateTree_def expandAndFlattenRecursively.simps)
  then show ?thesis
    using assms(1) by (simp add: compose_def)
qed

theorem compose_missing_root_witness:
  "isValidTemplateSelector ''@p'' = Some Root
   \<and> fst (getTemplateContent [(''p'', \<lparr>id_lines = [], data = [], body = ''hello''\<rparr>)] ''@p'' Relative) = None
   \<and> compose \<lparr>instructionsDir = [(''p'', \<lparr>id_lines = [], data = [], body = ''hello''\<rparr>)],
              templateVariables = [], templateOverrides = []\<rparr> ''@p''
     = Some (Inr [], [DoesNotExist ''@p''])"
proof -
  have v: "isValidTemplateSelector ''@p'' = Some Root"
    by code_simp
  have a: "fst (getTemplateContent
      (instructionsDir \<lparr>instructionsDir = [(''p'', \<lparr>id_lines = [], data = [], body = ''hello''\<rparr>)],
              templateVariables = [], templateOverrides = []\<rparr>) ''@p'' Relative) = None"
    by code_simp
  from compose_missing_root [OF v a] v a show ?thesis
    by simp
qed

section \<open>The invariant of the nodes\<close>

lemma removeReferenceFromNode_sel [simp]:
  "path (removeReferenceFromNode t rs) = path t"
  "ancestors (removeReferenceFromNode t rs) = ancestors t"
  "references (removeReferenceFromNode t rs) = filter (\<lambda>r. r \<notin> set rs) (references t)"
  by (simp_all add: removeReferenceFromNode_def)

lemma filterLoopedReferences_path [simp]:
  "path (fst (filterLoopedReferences t)) = path t"
  by (simp add: filterLoopedReferences_def Let_def split: prod.splits if_splits)

lemma filterLoopedReferences_ancestors [simp]:
  "ancestors (fst (filterLoopedReferences t)) = ancestors t"
  by (simp add: filterLoopedReferences_def Let_def split: prod.splits if_splits)

lemma filterLoopedReferences_references:
  "set (references (fst (filterLoopedReferences t)))
   = set (references t) - {path t} - set (ancestors t)"
  by (auto simp: filterLoopedReferences_def Let_def filter_empty_conv split: prod.splits if_splits)

lemma parseMarkdown_path [simp]: "path (fst (parseMarkdown dir s)) = s"
  by (simp add: parseMarkdown_def Let_def split: prod.splits option.splits)

lemma getNodeFromSelector_path [simp]: "path (fst (getNodeFromSelector dir s ancs)) = s"
  by (simp add: getNodeFromSelector_def Let_def case_prod_beta)

lemma getNodeFromSelector_ancestors [simp]:
  "ancestors (fst (getNodeFromSelector dir s ancs)) = ancs"
  by (simp add: getNodeFromSelector_def Let_def case_prod_beta)

lemma getNodeFromSelector_references:
  "set (references (fst (getNodeFromSelector dir s ancs))) \<inter> insert s (set ancs) = {}"
  by (auto simp: getNodeFromSelector_def Let_def case_prod_beta filterLoopedReferences_references)

lemma collect_references_avoids:
  assumes "p \<noteq> []"
    and "\<forall>r\<in>set refs. r \<noteq> p \<and> r \<notin> set ancs"
  shows "\<forall>r\<in>set (fst (snd (collect_references dir (Some p) ancs True nic ms
                                  (reps, refs, rem, log)))).
           r \<noteq> p \<and> r \<notin> set ancs"
  using assms(2)
proof (induction ms arbitrary: reps refs rem log)
  case Nil
  then show ?case by simp
next
  case (Cons a ms)
  obtain start fin g where a: "a = (start, fin, g)" by (cases a)
  define normalizedRef where "normalizedRef =
    (case fst (normalizeToRelativeSelector dir (trim g)) of None \<Rightarrow> trim g | Some n \<Rightarrow> n)"
  consider (var) "is_variable_reference (trim g)"
    | (self) "\<not> is_variable_reference (trim g)" "normalizedRef = p"
    | (anc) "\<not> is_variable_reference (trim g)" "normalizedRef \<noteq> p" "normalizedRef \<in> set ancs"
    | (keep) "\<not> is_variable_reference (trim g)" "normalizedRef \<noteq> p" "normalizedRef \<notin> set ancs"
    by blast
  then show ?case
  proof cases
    case var
    then show ?thesis
      unfolding a using Cons.IH [OF Cons.prems] by simp
  next
    case self
    then show ?thesis
      unfolding a using Cons.IH [OF Cons.prems] assms(1)
      by (simp add: Let_def case_prod_beta normalizedRef_def)
  next
    case anc
    then show ?thesis
      unfolding a using Cons.IH [OF Cons.prems] assms(1)
      by (simp add: Let_def case_prod_beta normalizedRef_def)
  next
    case keep
    from keep Cons.prems
    have "\<forall>r\<in>set (refs @ [normalizedRef]). r \<noteq> p \<and> r \<notin> set ancs"
      by simp
    from Cons.IH [OF this] keep show ?thesis
      unfolding a using assms(1)
      by (simp add: Let_def case_prod_beta normalizedRef_def)
  qed
qed

lemma new_Set_set [simp]: "set (new_Set xs) = set xs"
  by (simp add: new_Set_def)

lemma extractReferencesFromContent_avoids:
  assumes "p \<noteq> []"
  shows "set (fst (fst (extractReferencesFromContent dir c (Some p) ancs True nic)))
           \<inter> insert p (set ancs) = {}"
  using collect_references_avoids [OF assms, of "[]" ancs dir nic
      "regex_exec referenceRegex 0 0 c" "[]" "[]" "[]"]
  by (auto simp: extractReferencesFromContent_def Let_def case_prod_beta)


lemma getNodeFromSelector_invariant:
  assumes "s \<notin> set ancs"
  shows "node_invariant (fst (getNodeFromSelector dir s ancs))"
  using assms getNodeFromSelector_references [of dir s ancs]
  by (auto simp: node_invariant_def)

lemma attach_each_children:
  assumes "attach_each m ancs refs = (Inr cs, w)" and "c \<in> set cs"
  shows "\<exists>ref\<in>set refs.
           path c = ref \<and> ancestors c = ancs
           \<and> references c = references (fst (getNodeFromSelector (instructionsDir m) ref ancs))"
  using assms
proof (induction refs arbitrary: cs w)
  case Nil
  then show ?case by simp
next
  case (Cons ref refs)
  obtain child w1 where g: "getNodeFromSelector (instructionsDir m) ref ancs = (child, w1)"
    by fastforce
  obtain vars w2 where v: "extractTemplateVariables m (path child) = (vars, w2)"
    by fastforce
  obtain r w3 where ae: "attach_each m ancs refs = (r, w3)"
    by fastforce
  from Cons.prems(1) g v ae obtain e rest where
    rest: "attach_each m ancs refs = (Inr rest, w3)"
    and cs: "cs = TemplateTreeNode (path child) (frontmatter child) e (variables child)
                    (references child) (ancestors child) (children child) # rest"
    by (auto split: sum.splits)
  from g have child: "child = fst (getNodeFromSelector (instructionsDir m) ref ancs)"
    by simp
  from Cons.prems(2) cs consider (head) "c = hd cs" | (tail) "c \<in> set rest"
    by auto
  then show ?case
  proof cases
    case head
    with cs child show ?thesis by simp
  next
    case tail
    from Cons.IH [OF rest tail] show ?thesis by auto
  qed
qed

lemma attachChildren_fields:
  assumes "attachChildren m n = (Inr n', w)"
  shows "path n' = path n \<and> ancestors n' = ancestors n \<and> references n' = references n"
  using assms by (auto simp: attachChildren_def split: sum.splits prod.splits)

lemma attachChildren_children:
  assumes "attachChildren m n = (Inr n', w)" and "children n' = Some cs" and "c \<in> set cs"
  shows "\<exists>ref\<in>set (references n).
           path c = ref \<and> ancestors c = ancestors n @ [path n]
           \<and> references c = references (fst (getNodeFromSelector (instructionsDir m) ref
                                                  (ancestors n @ [path n])))"
proof -
  from assms(1,2) obtain w' where
    "attach_each m (ancestors n @ [path n]) (references n) = (Inr cs, w')"
    by (auto simp: attachChildren_def split: sum.splits prod.splits)
  from attach_each_children [OF this assms(3)] show ?thesis .
qed

lemma flatten_invariant:
  assumes "flattenChildrenAndExpandContent dir n = (Inr n', w)"
    and "node_invariant n" and "path n \<noteq> []"
  shows "node_invariant n' \<and> path n' = path n \<and> ancestors n' = ancestors n"
proof (cases "length (case children n of None \<Rightarrow> [] | Some cs \<Rightarrow> cs) = 0")
  case True
  with assms show ?thesis
    by (simp add: flattenChildrenAndExpandContent_def Let_def)
next
  case False
  with assms(1) obtain expandedContent where
    n': "n' = TemplateTreeNode (path n) (frontmatter n)
          (snd (fst (extractReferencesFromContent dir expandedContent
                       (Some (path n)) (ancestors n) True False)))
          (variables n)
          (fst (fst (extractReferencesFromContent dir expandedContent
                       (Some (path n)) (ancestors n) True False)))
          (ancestors n) (Some [])"
    by (auto simp: flattenChildrenAndExpandContent_def Let_def case_prod_beta
        split: sum.splits)
  from extractReferencesFromContent_avoids [OF assms(3), of dir expandedContent "ancestors n" False]
    assms(2)
  show ?thesis
    unfolding n' by (auto simp: node_invariant_def)
qed

lemma expand_step_invariant:
  assumes "expand_step m n = (Inr n', w)" and "node_invariant n" and "path n \<noteq> []"
  shows "node_invariant n' \<and> path n' = path n \<and> ancestors n' = ancestors n"
proof -
  from assms(1) obtain nc w1 w2 where
    att: "attachChildren m n = (Inr nc, w1)"
    and fl: "flattenChildrenAndExpandContent (instructionsDir m) nc = (Inr n', w2)"
    by (auto simp: expand_step_def split: sum.splits prod.splits)
  from attachChildren_fields [OF att] assms(2,3)
  have "node_invariant nc" and "path nc \<noteq> []"
    and same: "path nc = path n" "ancestors nc = ancestors n"
    by (simp_all add: node_invariant_def)
  from flatten_invariant [OF fl this(1,2)] same show ?thesis by simp
qed

lemma empty_selector_invalid: "isValidTemplateSelector [] = None"
  by (simp add: isValidTemplateSelector_def relativePath_def rootPath_def idSelector_def)

lemma current_node_invariant:
  assumes "current_node m rootSelector n"
  shows "node_invariant n \<and> path n = rootSelector \<and> ancestors n = [] \<and> rootSelector \<noteq> []"
  using assms
proof (induction rule: current_node.induct)
  case (initial type n w)
  from initial(1) have "rootSelector \<noteq> []"
    using empty_selector_invalid by auto
  moreover from initial(2) have "n = fst (getNodeFromSelector (instructionsDir m) rootSelector [])"
    by simp
  ultimately show ?case
    using getNodeFromSelector_invariant [of rootSelector "[]" "instructionsDir m"] by simp
next
  case (flattened n n' w)
  from flattened.IH have "node_invariant n" and "path n \<noteq> []" by simp_all
  from expand_step_invariant [OF flattened.hyps(3) this] flattened.IH show ?case by simp
qed

text \<open>
  C8: every node that a composition with a valid root selector builds (the node of the
  root at construction and after every turn of the loop, the node with its children
  attached, and every child) satisfies the invariant: its path is not among its
  ancestors, its references and its ancestors are disjoint, and its path is not among
  its references.
\<close>

theorem produced_node_invariant:
  assumes "produced m rootSelector x"
  shows "node_invariant x"
  using assms
proof (induction rule: produced.induct)
  case (current n)
  then show ?case using current_node_invariant by blast
next
  case (child n ref c w)
  from current_node_invariant [OF child(1)] child(2)
  have "ref \<notin> set (ancestors n @ [path n])"
    by (auto simp: node_invariant_def)
  from getNodeFromSelector_invariant [OF this, of "instructionsDir m"] child(3)
  show ?case by simp
next
  case (with_children n n' w)
  from current_node_invariant [OF with_children(1)] attachChildren_fields [OF with_children(3)]
  show ?case by (auto simp: node_invariant_def)
next
  case (expanded_child n n' w cs c)
  from attachChildren_children [OF expanded_child(3,4,5)] obtain ref where
    ref: "ref \<in> set (references n)" "path c = ref" "ancestors c = ancestors n @ [path n]"
      "references c = references (fst (getNodeFromSelector (instructionsDir m) ref
                                          (ancestors n @ [path n])))"
    by blast
  from current_node_invariant [OF expanded_child(1)] ref(1)
  have "ref \<notin> set (ancestors n @ [path n])"
    by (auto simp: node_invariant_def)
  from getNodeFromSelector_invariant [OF this, of "instructionsDir m"] ref
  show ?case by (simp add: node_invariant_def)
qed


theorem produced_node_invariant_witness:
  "produced \<lparr>instructionsDir =
               [(''a'', \<lparr>id_lines = [], data = [], body = ''{{ b }} {{ a }}''\<rparr>),
                (''b'', \<lparr>id_lines = [], data = [], body = ''{{ a }} {{ b }} {{ c }}''\<rparr>)],
             templateVariables = [], templateOverrides = []\<rparr> ''a''
     (TemplateTreeNode ''b'' None ''  {{ c }}'' [] [''c''] [''a''] None)
   \<and> node_invariant (TemplateTreeNode ''b'' None ''  {{ c }}'' [] [''c''] [''a''] None)"
proof -
  define m where "m = \<lparr>instructionsDir =
               [(''a'', \<lparr>id_lines = [], data = [], body = ''{{ b }} {{ a }}''\<rparr>),
                (''b'', \<lparr>id_lines = [], data = [], body = ''{{ a }} {{ b }} {{ c }}''\<rparr>)],
             templateVariables = [], templateOverrides = []\<rparr>"
  have valid: "isValidTemplateSelector ''a'' = Some Relative"
    by code_simp
  have root: "getNodeFromSelector (instructionsDir m) ''a'' []
      = (TemplateTreeNode ''a'' None ''{{ b }} '' [] [''b''] [] None, [SelfReference ''a''])"
    unfolding m_def by code_simp
  have cur: "current_node m ''a'' (TemplateTreeNode ''a'' None ''{{ b }} '' [] [''b''] [] None)"
    by (rule current_node.initial [OF valid root])
  have kid: "getNodeFromSelector (instructionsDir m) ''b''
        (ancestors (TemplateTreeNode ''a'' None ''{{ b }} '' [] [''b''] [] None)
         @ [path (TemplateTreeNode ''a'' None ''{{ b }} '' [] [''b''] [] None)])
      = (TemplateTreeNode ''b'' None ''  {{ c }}'' [] [''c''] [''a''] None,
         [SelfReference ''b'', LoopDetected ''b'' [''a'']])"
    unfolding m_def by code_simp
  have p: "produced m ''a'' (TemplateTreeNode ''b'' None ''  {{ c }}'' [] [''c''] [''a''] None)"
    by (rule produced.child [OF cur _ kid]) simp
  from produced_node_invariant [OF p] p show ?thesis
    unfolding m_def by simp
qed

section \<open>The substitution context of a child\<close>



















section \<open>Escaping\<close>








































end
